theory Spec2Isabelle
  imports Main "HOL-Library.Word" "HOL-Library.Sublist"
begin

section \<open>The engine's state\<close>

text \<open>
  \<^verbatim>\<open>class Engine::Implementation\<close> of engine.cpp holds the two fields every method works
  on: the flag \<^verbatim>\<open>initialized_\<close> and the \<^verbatim>\<open>std::unordered_map<std::string, std::string>\<close>
  \<^verbatim>\<open>opening_book_\<close>. The methods of \<^verbatim>\<open>Engine\<close> reach it through \<^verbatim>\<open>pimpl\<close>; here every method
  takes the state and returns it beside its result, also where the source leaves it alone.
  The fields are named without the trailing underscore, which an Isabelle name cannot have.
\<close>

record Implementation =
  initialized :: bool
  opening_book :: "string \<rightharpoonup> string"

text \<open>\<^verbatim>\<open>Engine::Engine()\<close>: \<^verbatim>\<open>initialized_(false)\<close> and an empty map.\<close>

definition Engine :: Implementation where
  "Engine = \<lparr>initialized = False, opening_book = Map.empty\<rparr>"

section \<open>The standard-library operations the engine calls\<close>

text \<open>\<^verbatim>\<open>std::string::find(char)\<close>: the first index of the character, \<open>None\<close> for \<^verbatim>\<open>npos\<close>.\<close>

fun find_char :: "string \<Rightarrow> char \<Rightarrow> nat option" where
  "find_char [] c = None"
| "find_char (x # xs) c = (if x = c then Some 0 else map_option Suc (find_char xs c))"

text \<open>
  \<^verbatim>\<open>std::isspace\<close> in the classic locale, which is the one a \<^verbatim>\<open>std::istringstream\<close> has when
  nothing imbues another: space, and the five characters from tab to carriage return.
\<close>

definition isspace :: "char \<Rightarrow> bool" where
  "isspace c \<longleftrightarrow>
     c = CHR 0x20 \<or> c = CHR 0x09 \<or> c = CHR 0x0A \<or> c = CHR 0x0B \<or> c = CHR 0x0C \<or> c = CHR 0x0D"

text \<open>
  \<^verbatim>\<open>std::istringstream iss(command); std::string cmd; iss >> cmd;\<close> skips the leading
  white space and reads up to the next white space or the end. When nothing is left to
  read, \<^verbatim>\<open>cmd\<close> stays the empty string.
\<close>

definition extract_word :: "string \<Rightarrow> string" where
  "extract_word command = takeWhile (\<lambda>c. \<not> isspace c) (dropWhile isspace command)"

text \<open>
  \<^verbatim>\<open>std::to_string(int)\<close>: the decimal digits, most significant first, after a minus sign
  for a negative value. The argument is the value of the 32-bit \<^verbatim>\<open>int\<close>.
\<close>

definition digit_char :: "nat \<Rightarrow> char" where
  "digit_char n = ''0123456789'' ! n"

function digits :: "nat \<Rightarrow> string" where
  "digits n = (if n < 10 then [digit_char n] else digits (n div 10) @ [digit_char (n mod 10)])"
  by pat_completeness auto
termination
  by (relation "measure (\<lambda>n. n)") auto

definition to_string :: "int \<Rightarrow> string" where
  "to_string i = (if i < 0 then CHR ''-'' # digits (nat (- i)) else digits (nat i))"

section \<open>The methods of Engine\<close>

text \<open>\<^verbatim>\<open>Engine::validateFEN\<close>: \<^verbatim>\<open>!fen.empty() && fen.find('/') != std::string::npos\<close>.\<close>

definition validateFEN :: "string \<Rightarrow> bool" where
  "validateFEN fen \<longleftrightarrow> fen \<noteq> [] \<and> find_char fen (CHR ''/'') \<noteq> None"

text \<open>\<^verbatim>\<open>Engine::initializeOpeningBook\<close>: one assignment through \<^verbatim>\<open>operator[]\<close>.\<close>

definition initializeOpeningBook :: "Implementation \<Rightarrow> Implementation" where
  "initializeOpeningBook s =
     s\<lparr>opening_book := (opening_book s)
          (''rnbqkbnr/pppppppp/8/8/8/8/PPPPPPPP/RNBQKBNR w KQkq - 0 1'' \<mapsto> ''e2e4'')\<rparr>"

text \<open>
  \<^verbatim>\<open>Engine::initialize\<close>. The \<^verbatim>\<open>try\<close> block holds the test of the flag, the call of
  \<^verbatim>\<open>initializeOpeningBook\<close> and the assignment of the flag. None of them has a \<^verbatim>\<open>throw\<close>;
  the handler, which returns \<^verbatim>\<open>false\<close>, is reached only when the insertion into the map
  cannot allocate, and a model with unbounded memory has no such branch. The parameter
  \<^verbatim>\<open>config_path\<close> is not read.
\<close>

definition initialize :: "Implementation \<Rightarrow> string \<Rightarrow> bool \<times> Implementation" where
  "initialize s config_path =
     (if initialized s then (True, s)
      else let s' = initializeOpeningBook s in (True, s'\<lparr>initialized := True\<rparr>))"

text \<open>\<^verbatim>\<open>Engine::processCommand\<close>.\<close>

definition processCommand :: "Implementation \<Rightarrow> string \<Rightarrow> string \<times> Implementation" where
  "processCommand s command =
     (if \<not> initialized s then (''error engine not initialized'', s)
      else let cmd = extract_word command in
        if cmd = ''uci''
        then (''id name BrainFish\<newline>id author BlackBoxAI\<newline>uciok\<newline>'', s)
        else if cmd = ''isready'' then (''readyok\<newline>'', s)
        else if cmd = ''quit'' then (''quit\<newline>'', s)
        else (''unknown command\<newline>'', s))"

text \<open>\<^verbatim>\<open>Engine::analyzePosition\<close>; \<^verbatim>\<open>depth\<close> is a C++ \<^verbatim>\<open>int\<close>, read as a signed value.\<close>

definition analyzePosition :: "Implementation \<Rightarrow> string \<Rightarrow> 32 word \<Rightarrow> string \<times> Implementation" where
  "analyzePosition s fen depth =
     (if \<not> initialized s then (''error engine not initialized'', s)
      else if \<not> validateFEN fen then (''error invalid fen'', s)
      else (''info depth '' @ to_string (sint depth) @ '' score cp 100 pv e2e4 e7e5\<newline>'', s))"

text \<open>
  \<^verbatim>\<open>Engine::queryOpeningBook\<close>: \<^verbatim>\<open>find\<close>, which never inserts, then the stored move or the
  empty string.
\<close>

definition queryOpeningBook :: "Implementation \<Rightarrow> string \<Rightarrow> string \<times> Implementation" where
  "queryOpeningBook s fen =
     (case opening_book s fen of Some move \<Rightarrow> (move, s) | None \<Rightarrow> ([], s))"

text \<open>\<^verbatim>\<open>Engine::updateOpeningBook\<close>: the validity test, then \<^verbatim>\<open>opening_book_[fen] = move\<close>.\<close>

definition updateOpeningBook :: "Implementation \<Rightarrow> string \<Rightarrow> string \<Rightarrow> bool \<times> Implementation" where
  "updateOpeningBook s fen move =
     (if \<not> validateFEN fen then (False, s)
      else (True, s\<lparr>opening_book := (opening_book s)(fen \<mapsto> move)\<rparr>))"

text \<open>
  \<^verbatim>\<open>Engine::getBestMove\<close>. It has four \<^verbatim>\<open>return\<close> statements, and the last one stands where
  the search is to be called (the source marks it as the placeholder of the best-move
  calculation). \<open>getBestMove_path\<close> follows the same tests and names the statement that
  returns.
\<close>

definition getBestMove :: "Implementation \<Rightarrow> string \<Rightarrow> 32 word \<Rightarrow> string \<times> Implementation" where
  "getBestMove s fen time_ms =
     (if \<not> initialized s then (''error engine not initialized'', s)
      else if \<not> validateFEN fen then (''error invalid fen'', s)
      else let (book_move, s1) = queryOpeningBook s fen in
        if book_move \<noteq> [] then (''bestmove '' @ book_move @ ''\<newline>'', s1)
        else (''bestmove e2e4\<newline>'', s1))"

datatype return_path = Not_Initialized | Invalid_Fen | Book_Move | Search_Placeholder

definition getBestMove_path :: "Implementation \<Rightarrow> string \<Rightarrow> 32 word \<Rightarrow> return_path" where
  "getBestMove_path s fen time_ms =
     (if \<not> initialized s then Not_Initialized
      else if \<not> validateFEN fen then Invalid_Fen
      else let (book_move, s1) = queryOpeningBook s fen in
        if book_move \<noteq> [] then Book_Move
        else Search_Placeholder)"

section \<open>The protocol loop of main.cpp\<close>

text \<open>
  The standard input is the list of its lines, as \<^verbatim>\<open>std::getline\<close> hands them over one by
  one; at the end of the list \<^verbatim>\<open>getline\<close> fails and the \<^verbatim>\<open>while\<close> loop ends. The loop
  returns the responses written to \<^verbatim>\<open>std::cout\<close>, in order, the lines it has not read, and
  the engine.
\<close>

fun uci_loop :: "Implementation \<Rightarrow> string list \<Rightarrow> string list \<times> string list \<times> Implementation" where
  "uci_loop engine [] = ([], [], engine)"
| "uci_loop engine (line # rest) =
     (let (response, engine1) = processCommand engine line in
      if line = ''quit'' then ([response], rest, engine1)
      else let (out, unread, engine2) = uci_loop engine1 rest in
        (response # out, unread, engine2))"

text \<open>
  \<^verbatim>\<open>main\<close>: the exit code, the responses written and the lines left unread. When
  \<^verbatim>\<open>initialize\<close> fails it returns 1 before reading anything.
\<close>

definition main :: "string list \<Rightarrow> int \<times> string list \<times> string list" where
  "main input =
     (let (ok, engine) = initialize Engine [] in
      if \<not> ok then (1, [], input)
      else let (out, unread, engine1) = uci_loop engine input in (0, out, unread))"

section \<open>A line as its list of tokens\<close>

text \<open>
  The specification describes \<^verbatim>\<open>processCommand\<close> as a dispatch on the first
  whitespace-delimited token of the line. \<open>split_words\<close> and \<open>first_token\<close> follow these
  words, not the source: the tokens of a line are its maximal runs of characters that are
  not white space, from left to right (\<open>cur\<close> is the run being read), and the first token
  is the first of them, or the empty string when there is none. \<open>extract_word\<close> above is
  what the source does; the two are proved equal below.
\<close>

fun split_words :: "string \<Rightarrow> string \<Rightarrow> string list" where
  "split_words cur [] = (if cur = [] then [] else [cur])"
| "split_words cur (c # cs) =
     (if isspace c then (if cur = [] then split_words [] cs else cur # split_words [] cs)
      else split_words (cur @ [c]) cs)"

definition first_token :: "string \<Rightarrow> string" where
  "first_token line = (case split_words [] line of [] \<Rightarrow> [] | w # ws \<Rightarrow> w)"

section \<open>Facts about the library operations\<close>

lemma find_char_None_iff: "find_char s c = None \<longleftrightarrow> c \<notin> set s"
  by (induction s) auto

lemma validateFEN_iff: "validateFEN fen \<longleftrightarrow> fen \<noteq> [] \<and> CHR ''/'' \<in> set fen"
  by (simp add: validateFEN_def find_char_None_iff)

lemma split_words_head:
  "(case split_words cur cs of [] \<Rightarrow> [] | w # ws \<Rightarrow> w) =
     (if cur = [] then extract_word cs else cur @ takeWhile (\<lambda>c. \<not> isspace c) cs)"
  by (induction cs arbitrary: cur) (auto simp: extract_word_def)

lemma extract_word_first_token: "extract_word line = first_token line"
  using split_words_head [of "[]" line] by (simp add: first_token_def)

lemma digit_char_code:
  assumes "k < 10"
  shows "of_char (digit_char k) = 48 + k"
proof -
  from assms have "k \<in> {0, 1, 2, 3, 4, 5, 6, 7, 8, 9}" by auto
  then show ?thesis by (auto simp: digit_char_def)
qed

text \<open>Reading the digits back as a decimal numeral gives the number.\<close>

lemma digits_value: "foldl (\<lambda>a c. 10 * a + (of_char c - 48)) 0 (digits n) = n"
proof (induction n rule: digits.induct)
  case (1 n)
  show ?case
  proof (cases "n < 10")
    case True
    then show ?thesis by (subst digits.simps) (simp add: digit_char_code)
  next
    case False
    then show ?thesis using 1 by (subst digits.simps) (simp add: digit_char_code)
  qed
qed

section \<open>Facts about the state\<close>

lemma processCommand_state: "snd (processCommand s c) = s"
  by (simp add: processCommand_def Let_def)

lemma queryOpeningBook_state: "snd (queryOpeningBook s fen) = s"
  by (simp add: queryOpeningBook_def split: option.split)

lemma initialize_ready: "initialized (snd (initialize s cfg))"
  by (simp add: initialize_def Let_def)

lemma initial_engine: "initialize Engine [] = (True, snd (initialize Engine []))"
  by (simp add: initialize_def Let_def Engine_def)

lemma initial_book:
  "opening_book (snd (initialize Engine []))
     ''rnbqkbnr/pppppppp/8/8/8/8/PPPPPPPP/RNBQKBNR w KQkq - 0 1'' = Some ''e2e4''"
  by (simp add: initialize_def initializeOpeningBook_def Let_def Engine_def)

lemma startpos_valid: "validateFEN ''rnbqkbnr/pppppppp/8/8/8/8/PPPPPPPP/RNBQKBNR w KQkq - 0 1''"
  by (simp add: validateFEN_def)

lemma uci_loop_ready:
  "initialized s \<Longrightarrow> uci_loop s input =
     (map (\<lambda>l. fst (processCommand s l))
        (takeWhile (\<lambda>l. l \<noteq> ''quit'') input @ take 1 (dropWhile (\<lambda>l. l \<noteq> ''quit'') input)),
      drop 1 (dropWhile (\<lambda>l. l \<noteq> ''quit'') input), s)"
  by (induction input) (simp_all add: case_prod_beta Let_def processCommand_state)

section \<open>The lifecycle gate\<close>

text \<open>
  C1. While \<^verbatim>\<open>initialized_\<close> is false, which is the state of an engine on which no
  \<^verbatim>\<open>initialize\<close> has succeeded, each of \<^verbatim>\<open>processCommand\<close>, \<^verbatim>\<open>analyzePosition\<close> and
  \<^verbatim>\<open>getBestMove\<close> returns the string \<^verbatim>\<open>error engine not initialized\<close> for every argument,
  and the state it returns (the flag and the opening book) is the state it was given.
\<close>

theorem lifecycle_gate:
  assumes "\<not> initialized s"
  shows "processCommand s command = (''error engine not initialized'', s)
       \<and> analyzePosition s fen depth = (''error engine not initialized'', s)
       \<and> getBestMove s fen time_ms = (''error engine not initialized'', s)"
  using assms by (simp add: processCommand_def analyzePosition_def getBestMove_def)

theorem lifecycle_gate_witness:
  "\<not> initialized Engine
   \<and> processCommand Engine ''uci'' = (''error engine not initialized'', Engine)
   \<and> analyzePosition Engine ''8/8'' 20 = (''error engine not initialized'', Engine)
   \<and> getBestMove Engine ''8/8'' 1000 = (''error engine not initialized'', Engine)"
proof -
  have h: "\<not> initialized Engine" by (simp add: Engine_def)
  show ?thesis
    using h lifecycle_gate [OF h, of "''uci''" "''8/8''" 20 1000] by simp
qed

text \<open>
  \<^verbatim>\<open>updateOpeningBook\<close> is not behind that gate. On the engine as constructed, with a
  position that passes \<^verbatim>\<open>validateFEN\<close>, it returns \<^verbatim>\<open>true\<close> and the book has the new entry.
\<close>

theorem update_before_initialize_counterexample:
  "\<not> initialized Engine
   \<and> fst (updateOpeningBook Engine ''8/8'' ''e2e4'') = True
   \<and> opening_book (snd (updateOpeningBook Engine ''8/8'' ''e2e4'')) ''8/8'' = Some ''e2e4''
   \<and> opening_book (snd (updateOpeningBook Engine ''8/8'' ''e2e4'')) \<noteq> opening_book Engine"
proof -
  have a: "opening_book (snd (updateOpeningBook Engine ''8/8'' ''e2e4'')) ''8/8'' = Some ''e2e4''"
    by (simp add: updateOpeningBook_def validateFEN_def)
  have b: "opening_book Engine ''8/8'' = None"
    by (simp add: Engine_def)
  from a b
  have "opening_book (snd (updateOpeningBook Engine ''8/8'' ''e2e4'')) \<noteq> opening_book Engine"
    by (metis option.distinct(1))
  then show ?thesis
    using a by (simp add: Engine_def updateOpeningBook_def validateFEN_def)
qed

text \<open>
  C6, as the code has it. While \<^verbatim>\<open>initialized_\<close> is false, \<^verbatim>\<open>processCommand\<close>,
  \<^verbatim>\<open>analyzePosition\<close> and \<^verbatim>\<open>getBestMove\<close> are disabled: they return the not-initialized
  error and the state they were given. \<^verbatim>\<open>updateOpeningBook\<close> does not look at the flag: with
  a position \<open>p\<close> that passes validation it returns \<^verbatim>\<open>true\<close> and stores the entry, which
  \<^verbatim>\<open>queryOpeningBook\<close> then returns, and the engine stays uninitialized; with a position
  \<open>p'\<close> that fails validation it returns \<^verbatim>\<open>false\<close> and changes nothing.
\<close>

theorem update_not_gated:
  assumes "\<not> initialized s" and "validateFEN p" and "\<not> validateFEN p'"
  shows "fst (processCommand s c) = ''error engine not initialized''
       \<and> fst (analyzePosition s q d) = ''error engine not initialized''
       \<and> fst (getBestMove s q t) = ''error engine not initialized''
       \<and> snd (processCommand s c) = s
       \<and> snd (analyzePosition s q d) = s
       \<and> snd (getBestMove s q t) = s
       \<and> updateOpeningBook s p m = (True, s\<lparr>opening_book := (opening_book s)(p \<mapsto> m)\<rparr>)
       \<and> fst (queryOpeningBook (snd (updateOpeningBook s p m)) p) = m
       \<and> \<not> initialized (snd (updateOpeningBook s p m))
       \<and> updateOpeningBook s p' m = (False, s)"
  using assms
  by (simp add: processCommand_def analyzePosition_def getBestMove_def updateOpeningBook_def
      queryOpeningBook_def)

theorem update_not_gated_witness:
  "\<not> initialized Engine \<and> validateFEN ''8/8'' \<and> \<not> validateFEN ''nofences''
   \<and> fst (processCommand Engine ''isready'') = ''error engine not initialized''
   \<and> updateOpeningBook Engine ''8/8'' ''e2e4''
       = (True, Engine\<lparr>opening_book := (opening_book Engine)(''8/8'' \<mapsto> ''e2e4'')\<rparr>)
   \<and> fst (queryOpeningBook (snd (updateOpeningBook Engine ''8/8'' ''e2e4'')) ''8/8'') = ''e2e4''
   \<and> \<not> initialized (snd (updateOpeningBook Engine ''8/8'' ''e2e4''))
   \<and> updateOpeningBook Engine ''nofences'' ''e2e4'' = (False, Engine)"
proof -
  have h1: "\<not> initialized Engine" by (simp add: Engine_def)
  have h2: "validateFEN ''8/8''" by (simp add: validateFEN_def)
  have h3: "\<not> validateFEN ''nofences''" by (simp add: validateFEN_def)
  show ?thesis
    using h1 h2 h3
      update_not_gated [OF h1 h2 h3, of "''isready''" "''8/8''" 20 1000 "''e2e4''"]
    by blast
qed

section \<open>Initialization\<close>

text \<open>
  C4. \<^verbatim>\<open>initialize\<close> is idempotent. From any state the first call returns \<^verbatim>\<open>true\<close>; a second
  call right after it returns \<^verbatim>\<open>true\<close> as well and hands back the state the first call left,
  so it has no effect: the opening book after the second call is the book after the first.
\<close>

theorem initialize_idempotent:
  "fst (initialize s c1) = True
   \<and> initialize (snd (initialize s c1)) c2 = (True, snd (initialize s c1))
   \<and> opening_book (snd (initialize (snd (initialize s c1)) c2))
       = opening_book (snd (initialize s c1))"
proof -
  have first: "fst (initialize s c1) = True"
    by (simp add: initialize_def Let_def)
  have ready: "initialized (snd (initialize s c1))"
    by (rule initialize_ready)
  then have second: "initialize (snd (initialize s c1)) c2 = (True, snd (initialize s c1))"
    by (simp add: initialize_def [of "snd (initialize s c1)"])
  from first second show ?thesis by simp
qed

theorem initialize_idempotent_witness:
  "fst (initialize Engine []) = True
   \<and> initialize (snd (initialize Engine [])) [] = (True, snd (initialize Engine []))
   \<and> opening_book (snd (initialize (snd (initialize Engine [])) []))
       = opening_book (snd (initialize Engine []))"
  using initialize_idempotent [of Engine "[]" "[]"] by blast

text \<open>
  C9. \<^verbatim>\<open>initialize\<close> on an engine that is not yet initialized returns \<^verbatim>\<open>true\<close> and seeds the
  book with the starting position. Right after it, \<^verbatim>\<open>getBestMove\<close> on that position with
  1000 ms returns \<^verbatim>\<open>bestmove e2e4\<close> and a newline, through the book's \<^verbatim>\<open>return\<close> statement,
  and the response of \<^verbatim>\<open>processCommand("uci")\<close> contains \<^verbatim>\<open>uciok\<close> and a newline.
\<close>

theorem seeded_scenario:
  assumes "\<not> initialized s"
  shows "fst (initialize s cfg) = True
       \<and> opening_book (snd (initialize s cfg))
            ''rnbqkbnr/pppppppp/8/8/8/8/PPPPPPPP/RNBQKBNR w KQkq - 0 1'' = Some ''e2e4''
       \<and> getBestMove (snd (initialize s cfg))
            ''rnbqkbnr/pppppppp/8/8/8/8/PPPPPPPP/RNBQKBNR w KQkq - 0 1'' 1000
           = (''bestmove e2e4\<newline>'', snd (initialize s cfg))
       \<and> getBestMove_path (snd (initialize s cfg))
            ''rnbqkbnr/pppppppp/8/8/8/8/PPPPPPPP/RNBQKBNR w KQkq - 0 1'' 1000 = Book_Move
       \<and> sublist ''uciok\<newline>'' (fst (processCommand (snd (initialize s cfg)) ''uci''))"
proof -
  let ?e = "snd (initialize s cfg)"
  let ?p = "''rnbqkbnr/pppppppp/8/8/8/8/PPPPPPPP/RNBQKBNR w KQkq - 0 1''"
  have r: "initialized ?e" by (rule initialize_ready)
  have b: "opening_book ?e ?p = Some ''e2e4''"
    using assms by (simp add: initialize_def initializeOpeningBook_def Let_def)
  have g: "getBestMove ?e ?p 1000 = (''bestmove e2e4\<newline>'', ?e)
      \<and> getBestMove_path ?e ?p 1000 = Book_Move"
    using r startpos_valid b
    by (simp add: getBestMove_def getBestMove_path_def queryOpeningBook_def)
  have u: "fst (processCommand ?e ''uci'')
      = ''id name BrainFish\<newline>id author BlackBoxAI\<newline>uciok\<newline>''"
    using r by (simp add: processCommand_def extract_word_def isspace_def)
  have "suffix ''uciok\<newline>'' (fst (processCommand ?e ''uci''))"
    unfolding u by (simp add: suffix_def)
  then have c: "sublist ''uciok\<newline>'' (fst (processCommand ?e ''uci''))"
    by (rule suffix_imp_sublist)
  show ?thesis using b g c by (simp add: initialize_def Let_def)
qed

theorem seeded_scenario_witness:
  "\<not> initialized Engine
   \<and> fst (initialize Engine []) = True
   \<and> getBestMove (snd (initialize Engine []))
        ''rnbqkbnr/pppppppp/8/8/8/8/PPPPPPPP/RNBQKBNR w KQkq - 0 1'' 1000
       = (''bestmove e2e4\<newline>'', snd (initialize Engine []))
   \<and> getBestMove_path (snd (initialize Engine []))
        ''rnbqkbnr/pppppppp/8/8/8/8/PPPPPPPP/RNBQKBNR w KQkq - 0 1'' 1000 = Book_Move
   \<and> sublist ''uciok\<newline>'' (fst (processCommand (snd (initialize Engine [])) ''uci''))"
proof -
  have h: "\<not> initialized Engine" by (simp add: Engine_def)
  show ?thesis
    using h seeded_scenario [OF h, of "[]"] by blast
qed

section \<open>The validation gate\<close>

text \<open>
  C3. After a successful \<^verbatim>\<open>initialize\<close>, for a position that is empty or has no \<^verbatim>\<open>/\<close> in it:
  \<^verbatim>\<open>analyzePosition\<close> and \<^verbatim>\<open>getBestMove\<close> return \<^verbatim>\<open>error invalid fen\<close> for every depth and
  every time, \<^verbatim>\<open>updateOpeningBook\<close> returns \<^verbatim>\<open>false\<close> for every move, and each of the three
  hands back the state it was given, so the book is not changed.
\<close>

theorem validation_gate:
  assumes "initialized s" and "p = [] \<or> CHR ''/'' \<notin> set p"
  shows "analyzePosition s p d = (''error invalid fen'', s)
       \<and> getBestMove s p t = (''error invalid fen'', s)
       \<and> updateOpeningBook s p m = (False, s)"
proof -
  from assms(2) have "\<not> validateFEN p"
    by (auto simp: validateFEN_iff)
  with assms(1) show ?thesis
    by (simp add: analyzePosition_def getBestMove_def updateOpeningBook_def)
qed

theorem validation_gate_witness:
  "initialized (snd (initialize Engine []))
   \<and> (''nofences'' = [] \<or> CHR ''/'' \<notin> set ''nofences'')
   \<and> analyzePosition (snd (initialize Engine [])) ''nofences'' 20
       = (''error invalid fen'', snd (initialize Engine []))
   \<and> getBestMove (snd (initialize Engine [])) ''nofences'' 1000
       = (''error invalid fen'', snd (initialize Engine []))
   \<and> updateOpeningBook (snd (initialize Engine [])) ''nofences'' ''e2e4''
       = (False, snd (initialize Engine []))
   \<and> analyzePosition (snd (initialize Engine [])) [] 20
       = (''error invalid fen'', snd (initialize Engine []))"
proof -
  have h1: "initialized (snd (initialize Engine []))" by (rule initialize_ready)
  have h2: "''nofences'' = [] \<or> CHR ''/'' \<notin> set ''nofences''" by simp
  have h3: "([] :: string) = [] \<or> CHR ''/'' \<notin> set []" by simp
  show ?thesis
    using h1 h2 validation_gate [OF h1 h2, of 20 1000 "''e2e4''"]
      validation_gate [OF h1 h3, of 20 1000 "''e2e4''"]
    by blast
qed

section \<open>The opening book\<close>

text \<open>
  C5. The update overwrites. For a position \<open>p\<close> that is not empty and has a \<^verbatim>\<open>/\<close> in it,
  from any state, \<^verbatim>\<open>updateOpeningBook(p, m1)\<close> and then \<^verbatim>\<open>updateOpeningBook(p, m2)\<close> both
  return \<^verbatim>\<open>true\<close>, \<^verbatim>\<open>queryOpeningBook(p)\<close> then returns \<open>m2\<close>, and for every other key \<open>k\<close>
  the entry, and the answer of \<^verbatim>\<open>queryOpeningBook(k)\<close>, are what they were before.
\<close>

theorem upsert_last_write_wins:
  assumes "p \<noteq> []" and "CHR ''/'' \<in> set p" and "k \<noteq> p"
  shows "fst (updateOpeningBook s p m1) = True
       \<and> fst (updateOpeningBook (snd (updateOpeningBook s p m1)) p m2) = True
       \<and> fst (queryOpeningBook (snd (updateOpeningBook (snd (updateOpeningBook s p m1)) p m2)) p)
           = m2
       \<and> opening_book (snd (updateOpeningBook (snd (updateOpeningBook s p m1)) p m2)) k
           = opening_book s k
       \<and> fst (queryOpeningBook (snd (updateOpeningBook (snd (updateOpeningBook s p m1)) p m2)) k)
           = fst (queryOpeningBook s k)"
proof -
  from assms(1,2) have v: "validateFEN p"
    by (simp add: validateFEN_iff)
  with assms(3) show ?thesis
    by (simp add: updateOpeningBook_def queryOpeningBook_def split: option.split)
qed

theorem upsert_last_write_wins_witness:
  "''8/8'' \<noteq> [] \<and> CHR ''/'' \<in> set ''8/8''
   \<and> ''rnbqkbnr/pppppppp/8/8/8/8/PPPPPPPP/RNBQKBNR w KQkq - 0 1'' \<noteq> ''8/8''
   \<and> fst (queryOpeningBook
        (snd (updateOpeningBook (snd (updateOpeningBook (snd (initialize Engine []))
           ''8/8'' ''a2a3'')) ''8/8'' ''b2b3'')) ''8/8'') = ''b2b3''
   \<and> opening_book
        (snd (updateOpeningBook (snd (updateOpeningBook (snd (initialize Engine []))
           ''8/8'' ''a2a3'')) ''8/8'' ''b2b3''))
        ''rnbqkbnr/pppppppp/8/8/8/8/PPPPPPPP/RNBQKBNR w KQkq - 0 1'' = Some ''e2e4''"
proof -
  have h1: "''8/8'' \<noteq> []" by simp
  have h2: "CHR ''/'' \<in> set ''8/8''" by simp
  have h3: "''rnbqkbnr/pppppppp/8/8/8/8/PPPPPPPP/RNBQKBNR w KQkq - 0 1'' \<noteq> ''8/8''" by simp
  show ?thesis
    using h1 h2 h3 initial_book
      upsert_last_write_wins [OF h1 h2 h3, of "snd (initialize Engine [])" "''a2a3''" "''b2b3''"]
    by metis
qed

text \<open>
  The book can hold the empty string as a move, since \<^verbatim>\<open>updateOpeningBook\<close> does not look at
  the move. \<^verbatim>\<open>getBestMove\<close> reads the empty string as a miss: after \<^verbatim>\<open>initialize\<close> and
  \<^verbatim>\<open>updateOpeningBook("8/8", "")\<close> the book has an entry for \<^verbatim>\<open>8/8\<close>, and \<^verbatim>\<open>getBestMove\<close>
  returns the placeholder's \<^verbatim>\<open>bestmove e2e4\<close>, not \<^verbatim>\<open>bestmove\<close> followed by the entry.
\<close>

theorem book_precedence_counterexample:
  "initialized (snd (updateOpeningBook (snd (initialize Engine [])) ''8/8'' []))
   \<and> validateFEN ''8/8''
   \<and> opening_book (snd (updateOpeningBook (snd (initialize Engine [])) ''8/8'' [])) ''8/8''
       = Some []
   \<and> fst (getBestMove (snd (updateOpeningBook (snd (initialize Engine [])) ''8/8'' []))
        ''8/8'' 1000) = ''bestmove e2e4\<newline>''
   \<and> fst (getBestMove (snd (updateOpeningBook (snd (initialize Engine [])) ''8/8'' []))
        ''8/8'' 1000) \<noteq> ''bestmove '' @ [] @ ''\<newline>''
   \<and> getBestMove_path (snd (updateOpeningBook (snd (initialize Engine [])) ''8/8'' []))
        ''8/8'' 1000 = Search_Placeholder"
  by (simp add: getBestMove_def getBestMove_path_def queryOpeningBook_def updateOpeningBook_def
      initialize_def initializeOpeningBook_def Engine_def validateFEN_def Let_def)

text \<open>
  C2, as the code has it. When the engine is initialized, \<open>p\<close> passes validation and the
  book has an entry \<open>m\<close> for exactly the key \<open>p\<close>, and \<open>m\<close> is not the empty string,
  \<^verbatim>\<open>getBestMove(p, t)\<close> returns \<^verbatim>\<open>bestmove\<close>, a space, \<open>m\<close> and a newline for every \<open>t\<close>,
  through the book's \<^verbatim>\<open>return\<close> statement: the statement that stands for the search is not
  reached. The state is handed back as it was.
\<close>

theorem book_precedence:
  assumes "initialized s" and "validateFEN p" and "opening_book s p = Some m" and "m \<noteq> []"
  shows "getBestMove s p t = (''bestmove '' @ m @ ''\<newline>'', s)
       \<and> getBestMove_path s p t = Book_Move"
  using assms by (simp add: getBestMove_def getBestMove_path_def queryOpeningBook_def)

theorem book_precedence_witness:
  "initialized (snd (initialize Engine []))
   \<and> validateFEN ''rnbqkbnr/pppppppp/8/8/8/8/PPPPPPPP/RNBQKBNR w KQkq - 0 1''
   \<and> opening_book (snd (initialize Engine []))
        ''rnbqkbnr/pppppppp/8/8/8/8/PPPPPPPP/RNBQKBNR w KQkq - 0 1'' = Some ''e2e4''
   \<and> ''e2e4'' \<noteq> []
   \<and> getBestMove (snd (initialize Engine []))
        ''rnbqkbnr/pppppppp/8/8/8/8/PPPPPPPP/RNBQKBNR w KQkq - 0 1'' 7
       = (''bestmove e2e4\<newline>'', snd (initialize Engine []))
   \<and> getBestMove_path (snd (initialize Engine []))
        ''rnbqkbnr/pppppppp/8/8/8/8/PPPPPPPP/RNBQKBNR w KQkq - 0 1'' 7 = Book_Move"
proof -
  have h1: "initialized (snd (initialize Engine []))" by (rule initialize_ready)
  have h4: "''e2e4'' \<noteq> []" by simp
  show ?thesis
    using h1 startpos_valid initial_book
      book_precedence [OF h1 startpos_valid initial_book h4, of 7]
    by simp
qed

section \<open>Command dispatch\<close>

text \<open>
  C7. After a successful \<^verbatim>\<open>initialize\<close>, for a command line whose first token (the first
  maximal run of characters that are not white space; none for an empty or blank line) is
  not \<^verbatim>\<open>uci\<close>, \<^verbatim>\<open>isready\<close> or \<^verbatim>\<open>quit\<close>: the word \<^verbatim>\<open>processCommand\<close> extracts is that
  token, it returns \<^verbatim>\<open>unknown command\<close> and a newline, and it hands back the state (the flag
  and the book) it was given. The empty line is such a line.
\<close>

theorem unknown_command:
  assumes "initialized s" and "first_token c \<notin> {''uci'', ''isready'', ''quit''}"
  shows "extract_word c = first_token c
       \<and> processCommand s c = (''unknown command\<newline>'', s)
       \<and> processCommand s [] = (''unknown command\<newline>'', s)"
proof -
  have w: "extract_word c = first_token c"
    by (rule extract_word_first_token)
  with assms(2) have "extract_word c \<noteq> ''uci''" and "extract_word c \<noteq> ''isready''"
    and "extract_word c \<noteq> ''quit''"
    by auto
  with assms(1) have known: "processCommand s c = (''unknown command\<newline>'', s)"
    by (simp add: processCommand_def Let_def)
  have "extract_word [] = []"
    by (simp add: extract_word_def)
  with assms(1) have "processCommand s [] = (''unknown command\<newline>'', s)"
    by (simp add: processCommand_def Let_def)
  with w known show ?thesis by simp
qed

theorem unknown_command_witness:
  "initialized (snd (initialize Engine []))
   \<and> first_token ''whatever'' \<notin> {''uci'', ''isready'', ''quit''}
   \<and> processCommand (snd (initialize Engine [])) ''whatever''
       = (''unknown command\<newline>'', snd (initialize Engine []))
   \<and> processCommand (snd (initialize Engine [])) []
       = (''unknown command\<newline>'', snd (initialize Engine []))"
proof -
  have h1: "initialized (snd (initialize Engine []))" by (rule initialize_ready)
  have h2: "first_token ''whatever'' \<notin> {''uci'', ''isready'', ''quit''}"
    by (simp add: first_token_def isspace_def)
  show ?thesis
    using h1 h2 unknown_command [OF h1 h2] by blast
qed

section \<open>Position analysis\<close>

text \<open>
  C10. After a successful \<^verbatim>\<open>initialize\<close>, for a position \<open>p\<close> that passes validation and
  every depth \<open>d\<close>, \<^verbatim>\<open>analyzePosition(p, d)\<close> returns \<^verbatim>\<open>info depth\<close>, the decimal form of
  \<open>d\<close>, and \<^verbatim>\<open>score cp 100 pv e2e4 e7e5\<close> with a newline. The score and the line are
  constants: any other position \<open>p'\<close> that passes validation gets the same response.
\<close>

theorem analyze_placeholder:
  assumes "initialized s" and "validateFEN p" and "validateFEN p'"
  shows "analyzePosition s p d
           = (''info depth '' @ to_string (sint d) @ '' score cp 100 pv e2e4 e7e5\<newline>'', s)
       \<and> analyzePosition s p' d = analyzePosition s p d"
  using assms by (simp add: analyzePosition_def)

theorem analyze_placeholder_witness:
  "initialized (snd (initialize Engine []))
   \<and> validateFEN ''8/8''
   \<and> validateFEN ''rnbqkbnr/pppppppp/8/8/8/8/PPPPPPPP/RNBQKBNR w KQkq - 0 1''
   \<and> analyzePosition (snd (initialize Engine [])) ''8/8'' 20
       = (''info depth 20 score cp 100 pv e2e4 e7e5\<newline>'', snd (initialize Engine []))
   \<and> analyzePosition (snd (initialize Engine []))
        ''rnbqkbnr/pppppppp/8/8/8/8/PPPPPPPP/RNBQKBNR w KQkq - 0 1'' 20
       = analyzePosition (snd (initialize Engine [])) ''8/8'' 20"
proof -
  have h1: "initialized (snd (initialize Engine []))" by (rule initialize_ready)
  have h2: "validateFEN ''8/8''" by (simp add: validateFEN_def)
  have d: "to_string 20 = ''20''"
    by (simp add: to_string_def digit_char_def)
  show ?thesis
    using h1 h2 startpos_valid analyze_placeholder [OF h1 h2 startpos_valid, of 20]
    by (simp add: d)
qed

section \<open>The protocol session\<close>

text \<open>
  C8. \<^verbatim>\<open>main\<close>, on any finite list of input lines, exits with 0 after handing the lines to
  \<^verbatim>\<open>processCommand\<close> in order, on the engine it has initialized, and writing each response:
  the lines before the first one that is equal to \<^verbatim>\<open>quit\<close>, then that line, and nothing
  after it (the rest is left unread); with no such line, all of them. The line
  \<^verbatim>\<open>quit now\<close> gets the response \<^verbatim>\<open>quit\<close> and a newline, and the session goes on with the
  lines after it.
\<close>

theorem session_quit:
  "main input =
     (0,
      map (\<lambda>l. fst (processCommand (snd (initialize Engine [])) l))
        (takeWhile (\<lambda>l. l \<noteq> ''quit'') input @ take 1 (dropWhile (\<lambda>l. l \<noteq> ''quit'') input)),
      drop 1 (dropWhile (\<lambda>l. l \<noteq> ''quit'') input))
   \<and> fst (processCommand (snd (initialize Engine [])) ''quit now'') = ''quit\<newline>''
   \<and> main (''quit now'' # input) =
       (0, ''quit\<newline>'' # fst (snd (main input)), snd (snd (main input)))"
proof -
  let ?e = "snd (initialize Engine [])"
  have r: "initialized ?e" by (rule initialize_ready)
  have m: "main input = (0, fst (uci_loop ?e input), fst (snd (uci_loop ?e input)))" for input
    unfolding main_def by (subst initial_engine) (simp add: case_prod_beta Let_def)
  have q: "fst (processCommand ?e ''quit now'') = ''quit\<newline>''"
    using r by (simp add: processCommand_def extract_word_def isspace_def)
  show ?thesis
    using q by (simp add: m uci_loop_ready [OF r] del: uci_loop.simps)
qed

theorem session_quit_witness:
  "main [''isready'', ''quit now'', ''go'', ''quit'', ''uci'']
     = (0, [''readyok\<newline>'', ''quit\<newline>'', ''unknown command\<newline>'', ''quit\<newline>''], [''uci''])"
proof -
  have r: "initialized (snd (initialize Engine []))" by (rule initialize_ready)
  have p: "fst (processCommand (snd (initialize Engine [])) ''isready'') = ''readyok\<newline>''"
    "fst (processCommand (snd (initialize Engine [])) ''quit now'') = ''quit\<newline>''"
    "fst (processCommand (snd (initialize Engine [])) ''go'') = ''unknown command\<newline>''"
    "fst (processCommand (snd (initialize Engine [])) ''quit'') = ''quit\<newline>''"
    using r by (simp_all add: processCommand_def extract_word_def isspace_def)
  show ?thesis
    using session_quit [of "[''isready'', ''quit now'', ''go'', ''quit'', ''uci'']"]
    by (simp add: p)
qed

end
